theory Spec2Isabelle
  imports Complex_Main "HOL-Library.Sublist" "HOL-Library.Multiset"
    "HOL-Library.Char_ord" "HOL-Library.List_Lexorder"
begin

section \<open>Python values shared by the three routines\<close>

text \<open>
  Exceptions are values. Every routine below returns \<open>error + 'a\<close>, with \<open>Inl\<close> for the
  exception that leaves the routine.
\<close>

datatype error =
    ValueError string
  | AttributeError
  | KeyError string
  | TypeError string
  | ParserError string
  | UnboundLocalError string
  | ConnectionError string
  | StreamError string

text \<open>\<open>sub in s\<close> on Python strings: \<open>sub\<close> occurs in \<open>s\<close> as a contiguous block.\<close>

fun str_contains :: "string \<Rightarrow> string \<Rightarrow> bool" where
  "str_contains sub [] = (sub = [])"
| "str_contains sub (c # cs) = (prefix sub (c # cs) \<or> str_contains sub cs)"

text \<open>
  \<open>s.replace(old, new)\<close>: every non-overlapping occurrence of \<open>old\<close>, scanning from the left.
  With an empty \<open>old\<close> Python puts \<open>new\<close> before every character and at the end.
\<close>

fun str_replace :: "string \<Rightarrow> string \<Rightarrow> string \<Rightarrow> string" where
  "str_replace old new [] = (if old = [] then new else [])"
| "str_replace old new (c # cs) =
     (if old = [] then new @ c # str_replace old new cs
      else if prefix old (c # cs) then new @ str_replace old new (drop (length old) (c # cs))
      else c # str_replace old new cs)"

section \<open>ELFIN EPD: \<open>elfin_load_epd\<close> (src/pyspedas/elfin/epd/epd.py)\<close>

text \<open>The table \<open>CALIBRATED_TYPE_UNITS\<close> of the source, a dict, as an association list.\<close>

definition CALIBRATED_TYPE_UNITS :: "(string \<times> string) list" where
  "CALIBRATED_TYPE_UNITS =
     [(''raw'', ''counts/sector''),
      (''cps'', ''counts/s''),
      (''nflux'', ''#/(s-cm$^2$-str-MeV)''),
      (''eflux'', ''keV/(s-cm$^2$-str-MeV)'')]"

text \<open>
  Line 148-149: \<open>if type_ in ("cal", "calibrated") or type_ not in CALIBRATED_TYPE_UNITS.keys():
  type_ = "nflux"\<close>.
\<close>

definition normalize_type :: "string \<Rightarrow> string" where
  "normalize_type type' =
     (if type' \<in> set [''cal'', ''calibrated''] \<or> type' \<notin> set (map fst CALIBRATED_TYPE_UNITS)
      then ''nflux'' else type')"

text \<open>Line 159-161: the L2 branch only admits \<open>nflux\<close> and \<open>eflux\<close>.\<close>

definition l2_fluxtype :: "string \<Rightarrow> string" where
  "l2_fluxtype type' = (if type' \<notin> set [''nflux'', ''eflux''] then ''nflux'' else type')"

text \<open>
  An element of the array \<open>data.y\<close>: NaN or a number. Only \<open>np.isnan\<close> looks at it.
\<close>

datatype npval = NaN | Val rat

definition isnan :: "npval \<Rightarrow> bool" where
  "isnan v = (case v of NaN \<Rightarrow> True | Val _ \<Rightarrow> False)"

text \<open>\<open>np.any(~np.isnan(y))\<close> over the elements of the array, in any shape.\<close>

definition any_not_nan :: "npval list \<Rightarrow> bool" where
  "any_not_nan y = list_ex (\<lambda>v. \<not> isnan v) y"

text \<open>
  The arguments \<open>elfin_load_epd\<close> hands to \<open>load\<close>, and the arguments of the routine itself.
\<close>

record load_request =
  lr_instrument :: string
  lr_probe :: string
  lr_trange :: "string \<times> string"
  lr_level :: string
  lr_datatype :: string
  lr_get_support_data :: bool
  lr_varformat :: "string option"
  lr_varnames :: "string list"
  lr_downloadonly :: bool
  lr_notplot :: bool
  lr_time_clip :: bool
  lr_no_update :: bool

record epd_args =
  trange :: "string \<times> string"
  probe :: string
  datatype' :: string
  level :: string
  type' :: string
  get_support_data :: bool
  varformat :: "string option"
  varnames :: "string list"
  downloadonly :: bool
  notplot :: bool
  no_update :: bool
  time_clip :: bool
  nspinsinsum :: "int option"
  fullspin :: bool
  PAspec_energies :: "(rat \<times> rat) list option"
  PAspec_energybins :: "(int \<times> int) list option"
  Espec_LCfatol :: "rat option"
  Espec_LCfptol :: "rat option"

text \<open>
  What the routine does not compute itself. \<open>load\<close> (pyspedas.elfin.load) and \<open>get_data\<close>
  (pytplot) are not in the source tree: they are parameters. \<open>load\<close> gives the list of tplot
  variable names, or Python's \<open>None\<close>; with \<open>notplot\<close> the dict it returns is read as the list
  of its keys. \<open>get_data\<close> gives the elements of \<open>data.y\<close>, or \<open>None\<close> for a variable that
  does not exist. \<open>str_hash\<close> is the hash CPython gives a string in the running process; it
  is seeded per process and fixes the order in which a set of strings is enumerated.
\<close>

record epd_env =
  load :: "load_request \<Rightarrow> string list option"
  get_data :: "string \<Rightarrow> npval list option"
  str_hash :: "string \<Rightarrow> nat"

text \<open>
  \<open>list(set(xs) - set(ys) - set(zs))\<close>: the elements of \<open>xs\<close> in neither \<open>ys\<close> nor \<open>zs\<close>, each
  once, in the order of the set's enumeration.
\<close>

definition list_of_set_diff ::
  "(string \<Rightarrow> nat) \<Rightarrow> string list \<Rightarrow> string list \<Rightarrow> string list \<Rightarrow> string list" where
  "list_of_set_diff h xs ys zs =
     sort_key h (remdups (filter (\<lambda>x. x \<notin> set ys \<and> x \<notin> set zs) xs))"

text \<open>
  The postprocessing routines (pyspedas.elfin.epd.postprocessing) are not in the source
  tree. \<open>elfin_load_epd\<close> returns what they return, so the model returns the call.
\<close>

record l1_call =
  l1_tvars :: "string list"
  l1_trange :: "string \<times> string"
  l1_type :: string
  l1_nspinsinsum :: "int option"
  l1_unit :: string

record l2_call =
  l2_tvars :: "string list"
  l2_fluxtype_arg :: string
  l2_res :: string
  l2_PAspec_energies :: "(rat \<times> rat) list option"
  l2_PAspec_energybins :: "(int \<times> int) list option"
  l2_Espec_LCfatol :: "rat option"
  l2_Espec_LCfptol :: "rat option"

datatype epd_result =
    Tvars "string list option"
  | L1_postprocessing l1_call
  | L2_postprocessing l2_call

definition load_request_of :: "epd_args \<Rightarrow> load_request" where
  "load_request_of a =
     \<lparr> lr_instrument = ''epd'', lr_probe = probe a, lr_trange = trange a, lr_level = level a,
       lr_datatype = datatype' a, lr_get_support_data = get_support_data a,
       lr_varformat = varformat a, lr_varnames = varnames a, lr_downloadonly = downloadonly a,
       lr_notplot = notplot a, lr_time_clip = time_clip a, lr_no_update = no_update a \<rparr>"

text \<open>Python's \<open>not tvars\<close> for a list or \<open>None\<close>.\<close>

definition py_not :: "string list option \<Rightarrow> bool" where
  "py_not tvars = (case tvars of None \<Rightarrow> True | Some xs \<Rightarrow> xs = [])"

text \<open>Lines 166-167.\<close>

definition tvars_32_of :: "string list \<Rightarrow> string list" where
  "tvars_32_of tvars = filter (str_contains ''_32'') tvars"

definition tvars_16_of :: "string list \<Rightarrow> string list" where
  "tvars_16_of tvars = map (str_replace ''_32'' '''') (tvars_32_of tvars)"

text \<open>
  Lines 166-174: the variables handed to L2 postprocessing. \<open>data.y\<close> on the \<open>None\<close> that
  \<open>get_data\<close> returns for a missing variable raises AttributeError.
\<close>

definition l2_tvars_input :: "epd_env \<Rightarrow> string list \<Rightarrow> error + string list" where
  "l2_tvars_input env tvars =
     (let tvars_32 = tvars_32_of tvars;
          tvars_16 = tvars_16_of tvars;
          tvars_other = list_of_set_diff (str_hash env) tvars tvars_32 tvars_16
      in if length tvars_32 \<noteq> 0 then
           (case get_data env (hd tvars_32) of
              None \<Rightarrow> Inl AttributeError
            | Some y \<Rightarrow>
                if any_not_nan y then Inr (tvars_other @ tvars_32)
                else Inr (tvars_other @ tvars_16))
         else Inr (tvars_other @ tvars_16))"

definition elfin_load_epd :: "epd_env \<Rightarrow> epd_args \<Rightarrow> error + epd_result" where
  "elfin_load_epd env a =
     (let tvars = load env (load_request_of a) in
      if notplot a \<or> downloadonly a then Inr (Tvars tvars)
      else if py_not tvars then Inr (Tvars tvars)
      else
        let ty = normalize_type (type' a); vars = (case tvars of None \<Rightarrow> [] | Some xs \<Rightarrow> xs) in
        if level a = ''l1'' then
          (case map_of CALIBRATED_TYPE_UNITS ty of
             None \<Rightarrow> Inl (KeyError ty)
           | Some unit \<Rightarrow>
               Inr (L1_postprocessing
                 \<lparr> l1_tvars = vars, l1_trange = trange a, l1_type = ty,
                   l1_nspinsinsum = nspinsinsum a, l1_unit = unit \<rparr>))
        else if level a = ''l2'' then
          (let ty2 = l2_fluxtype ty;
               res = (if \<not> fullspin a then ''hs'' else ''fs'')
           in case l2_tvars_input env vars of
                Inl e \<Rightarrow> Inl e
              | Inr tvars_input \<Rightarrow>
                  Inr (L2_postprocessing
                    \<lparr> l2_tvars = tvars_input, l2_fluxtype_arg = ty2, l2_res = res,
                      l2_PAspec_energies = PAspec_energies a,
                      l2_PAspec_energybins = PAspec_energybins a,
                      l2_Espec_LCfatol = Espec_LCfatol a,
                      l2_Espec_LCfptol = Espec_LCfptol a \<rparr>))
        else Inl (ValueError (''Unknown level: '' @ level a)))"

text \<open>The defaults of the signature, and a small load result to run the routine on.\<close>

definition epd_defaults :: epd_args where
  "epd_defaults =
     \<lparr> trange = (''2020-11-01'', ''2020-11-02''), probe = ''a'', datatype' = ''pef'',
       level = ''l1'', type' = ''nflux'', get_support_data = False, varformat = None,
       varnames = [], downloadonly = False, notplot = False, no_update = False,
       time_clip = True, nspinsinsum = None, fullspin = False, PAspec_energies = None,
       PAspec_energybins = None, Espec_LCfatol = None, Espec_LCfptol = None \<rparr>"

definition example_tvars :: "string list" where
  "example_tvars = [''ela_pef_energies_mean'', ''ela_pef_Et_nflux'', ''ela_pef_hs_Epat_nflux_32'',
                    ''ela_pef_hs_Epat_nflux'']"

definition example_env :: "(string \<Rightarrow> nat) \<Rightarrow> epd_env" where
  "example_env h =
     \<lparr> load = (\<lambda>r. Some example_tvars),
       get_data = (\<lambda>n. if n = ''ela_pef_hs_Epat_nflux_32'' then Some [NaN, Val 3] else None),
       str_hash = h \<rparr>"

section \<open>Decimal text and calendar dates\<close>

text \<open>\<open>str(n)\<close> for a natural number: its decimal digits.\<close>

definition digit_char :: "nat \<Rightarrow> char" where
  "digit_char d = ''0123456789'' ! d"

fun str_nat :: "nat \<Rightarrow> string" where
  "str_nat n = (if n < 10 then [digit_char n] else str_nat (n div 10) @ [digit_char (n mod 10)])"

declare str_nat.simps [simp del]

definition str_int :: "int \<Rightarrow> string" where
  "str_int i = (if i < 0 then CHR ''-'' # str_nat (nat (- i)) else str_nat (nat i))"

text \<open>Zero padding of \<open>%m\<close>, \<open>%d\<close> and \<open>%Y\<close>.\<close>

definition pad0 :: "nat \<Rightarrow> string \<Rightarrow> string" where
  "pad0 w s = replicate (w - length s) (CHR ''0'') @ s"

text \<open>
  Year, month and day of the day with the given number, day 0 being 1970-01-01, in the
  proleptic Gregorian calendar that \<open>datetime\<close> uses.
\<close>

definition civil_from_days :: "int \<Rightarrow> int \<times> int \<times> int" where
  "civil_from_days z =
     (let z' = z + 719468;
          era = z' div 146097;
          doe = z' - era * 146097;
          yoe = (doe - doe div 1460 + doe div 36524 - doe div 146096) div 365;
          y = yoe + era * 400;
          doy = doe - (365 * yoe + yoe div 4 - yoe div 100);
          mp = (5 * doy + 2) div 153;
          d = doy - (153 * mp + 2) div 5 + 1;
          m = (if mp < 10 then mp + 3 else mp - 9)
      in (if m \<le> 2 then y + 1 else y, m, d))"

definition strftime_Y :: "int \<Rightarrow> string" where
  "strftime_Y day = (case civil_from_days day of (y, m, d) \<Rightarrow> pad0 4 (str_nat (nat y)))"

definition strftime_m :: "int \<Rightarrow> string" where
  "strftime_m day = (case civil_from_days day of (y, m, d) \<Rightarrow> pad0 2 (str_nat (nat m)))"

definition strftime_d :: "int \<Rightarrow> string" where
  "strftime_d day = (case civil_from_days day of (y, m, d) \<Rightarrow> pad0 2 (str_nat (nat d)))"

section \<open>MMS state data: \<open>mms_get_state_data\<close> (src/pyspedas/mms/mec_ascii/mms_get_state_data.py)\<close>

subsection \<open>Times\<close>

text \<open>
  \<open>time_double\<close> returns seconds since 1970-01-01 00:00:00 UTC as a float. The model takes
  them as exact rationals: rounding of floats is not modelled.
\<close>

type_synonym epoch = rat

text \<open>
  An element of \<open>trange\<close>, or a date of the server's listing: a time string or a number. A
  time string is represented by the instant it denotes; line 34 of the source tells the two
  apart.
\<close>

datatype timearg = TimeStr epoch | TimeNum epoch

text \<open>
  A string in the format \<open>%Y-%m-%d\<close>, represented by the number of its day since 1970-01-01.
\<close>

type_synonym ymd = int

text \<open>
  Modelled from the spec: \<open>pyspedas.time_double\<close> and \<open>pyspedas.time_string\<close> are not in the
  source tree. \<open>time_double\<close> gives the epoch time of a time string or number;
  \<open>time_string\<close> with \<open>fmt='%Y-%m-%d'\<close> gives the UTC calendar day of an epoch time, and
  \<open>time_double\<close> of such a string is the epoch time of that day at 00:00:00 (the "epoch time
  of its date truncated to \<open>%Y-%m-%d\<close>" of the spec's claim).
\<close>

definition time_double :: "timearg \<Rightarrow> epoch" where
  "time_double t = (case t of TimeStr e \<Rightarrow> e | TimeNum e \<Rightarrow> e)"

definition time_string_ymd :: "epoch \<Rightarrow> ymd" where
  "time_string_ymd t = \<lfloor>t / 86400\<rfloor>"

definition time_double_ymd :: "ymd \<Rightarrow> epoch" where
  "time_double_ymd d = of_int d * 86400"

text \<open>The text of a \<open>%Y-%m-%d\<close> string, as it goes into the query URL.\<close>

definition ymd_text :: "ymd \<Rightarrow> string" where
  "ymd_text d = strftime_Y d @ ''-'' @ strftime_m d @ ''-'' @ strftime_d d"


text \<open>Lines 29-45 of the source.\<close>

definition start_time :: "timearg \<times> timearg \<Rightarrow> epoch" where
  "start_time tr = time_double (fst tr) - 60 * 60 * 24"

definition end_time :: "timearg \<times> timearg \<Rightarrow> epoch" where
  "end_time tr = time_double (snd tr)"

definition endtime_day :: "timearg \<times> timearg \<Rightarrow> epoch" where
  "endtime_day tr =
     (case snd tr of
        TimeStr _ \<Rightarrow> time_double_ymd (time_string_ymd (time_double (snd tr)))
      | TimeNum t \<Rightarrow> time_double_ymd (time_string_ymd t))"

definition add_day :: "timearg \<times> timearg \<Rightarrow> epoch" where
  "add_day tr = (if end_time tr > endtime_day tr then 60 * 60 * 24 else 0)"

definition start_time_str :: "timearg \<times> timearg \<Rightarrow> ymd" where
  "start_time_str tr = time_string_ymd (start_time tr)"

definition end_time_str :: "timearg \<times> timearg \<Rightarrow> ymd" where
  "end_time_str tr = time_string_ymd (end_time tr + add_day tr)"

subsection \<open>The server's listing and the selection of predicted files\<close>

text \<open>A JSON scalar, and Python's \<open>str\<close> of it.\<close>

datatype json = JInt int | JStr string

definition py_str :: "json \<Rightarrow> string" where
  "py_str j = (case j of JInt i \<Rightarrow> str_int i | JStr s \<Rightarrow> s)"

text \<open>An entry of \<open>http_json['files']\<close>.\<close>

record sdc_file =
  file_name :: string
  file_size :: json
  start_date :: timearg
  end_date :: timearg

text \<open>
  Lines 86-94: the loop over the listing when the level is not \<open>def\<close>. The \<open>break\<close> after
  \<open>append\<close> ends the loop at the first file that is kept.
\<close>

fun select_predicted :: "epoch \<Rightarrow> epoch \<Rightarrow> sdc_file list \<Rightarrow> sdc_file list \<Rightarrow> sdc_file list" where
  "select_predicted st ed [] files_in_interval = files_in_interval"
| "select_predicted st ed (file # rest) files_in_interval =
     (if time_double (start_date file) > ed then select_predicted st ed rest files_in_interval
      else if st > time_double (end_date file) then select_predicted st ed rest files_in_interval
      else files_in_interval @ [file])"

text \<open>Lines 81-96.\<close>

definition files_in_interval_of ::
  "string \<Rightarrow> timearg \<times> timearg \<Rightarrow> sdc_file list \<Rightarrow> sdc_file list" where
  "files_in_interval_of lvl tr files =
     (if lvl \<noteq> ''def'' then select_predicted (start_time tr) (endtime_day tr) files []
      else files)"

subsection \<open>Files, requests and the download loop\<close>

text \<open>
  What the routine reads from outside. \<open>CONFIG\<close> gives \<open>local_data_dir\<close> and
  \<open>download_only\<close>; \<open>os_name\<close> is \<open>os.name\<close>. \<open>login_user\<close> is the user that
  \<open>mms_login_lasp\<close> returns (\<open>None\<close> for the public site). \<open>listing\<close> is the \<open>files\<close> entry
  of the JSON answer to a listing request, \<open>None\<close> when the request or its decoding raises.
  \<open>download\<close> is the answer to a download request: the request raises, or the stream
  delivers the whole payload, or it delivers some bytes and then fails. \<open>tmp_name\<close> is
  the path that the n-th \<open>NamedTemporaryFile\<close> creates.
\<close>

datatype response = Refused | Payload string | Broken string

record mms_config =
  local_data_dir :: string
  download_only :: bool
  os_name :: string

record sdc_env = mms_config +
  login_user :: "string option"
  listing :: "string \<Rightarrow> sdc_file list option"
  download :: "string \<Rightarrow> response"
  tmp_name :: "nat \<Rightarrow> string"

text \<open>\<open>os.sep\<close>.\<close>

definition os_sep :: "'a mms_config_scheme \<Rightarrow> string" where
  "os_sep cfg = (if os_name cfg = ''nt'' then [char_of (92 :: nat)] else ''/'')"

text \<open>\<open>sep.join(parts)\<close>.\<close>

fun join :: "string \<Rightarrow> string list \<Rightarrow> string" where
  "join sep [] = []"
| "join sep [p] = p"
| "join sep (p # q # ps) = p @ sep @ join sep (q # ps)"

text \<open>
  What the routine does to the outside, in order: HTTP requests, the complete write of a
  temporary file (or the write that the failing stream cut short), \<open>os.makedirs\<close>,
  \<open>shutil.copy\<close>, and the call of the tplot loader.
\<close>

datatype event =
    Http_get string
  | Tmp_written string string
  | Tmp_write_failed string string
  | Makedirs string
  | Copied string string
  | Tplot_load string "string list"

text \<open>
  The state of a run: the regular files by path with their bytes, the directories, the
  events so far, the number of temporary files created, and the variable \<open>out_files\<close>.
  Paths name what the routine expects: \<open>out_file\<close> is a regular file or absent.
\<close>

record state =
  files :: "string \<Rightarrow> string option"
  dirs :: "string set"
  trace :: "event list"
  tmp_count :: nat
  out_files :: "string list"

text \<open>
  Line 101: \<open>os.path.exists(out_file) and str(os.stat(out_file).st_size) ==
  str(file['file_size'])\<close>.
\<close>

definition cached :: "state \<Rightarrow> string \<Rightarrow> sdc_file \<Rightarrow> bool" where
  "cached s out_file file =
     (case files s out_file of
        None \<Rightarrow> False
      | Some bytes \<Rightarrow> str_nat (length bytes) = py_str (file_size file))"

definition download_url_of :: "sdc_env \<Rightarrow> sdc_file \<Rightarrow> string" where
  "download_url_of env file =
     (if login_user env = None
      then ''https://lasp.colorado.edu/mms/sdc/public/files/api/v1/download/ancillary?file=''
             @ file_name file
      else ''https://lasp.colorado.edu/mms/sdc/sitl/files/api/v1/download/ancillary?file=''
             @ file_name file)"

text \<open>
  Lines 99-130, the body of the loop over \<open>files_in_interval\<close>. The result is the exception
  that leaves the body, if any, and the state then.
\<close>

definition fetch_file :: "sdc_env \<Rightarrow> string \<Rightarrow> state \<Rightarrow> sdc_file \<Rightarrow> error option \<times> state" where
  "fetch_file env out_dir s file =
     (let out_file = join (os_sep env) [out_dir, file_name file] in
      if cached s out_file file then (None, s\<lparr>out_files := out_files s @ [out_file]\<rparr>)
      else
        let download_url = download_url_of env file;
            s1 = s\<lparr>trace := trace s @ [Http_get download_url]\<rparr>;
            ftmp = tmp_name env (tmp_count s1)
        in case download env download_url of
             Refused \<Rightarrow> (Some (ConnectionError download_url), s1)
           | Broken part \<Rightarrow>
               (Some (StreamError download_url),
                s1\<lparr>files := (files s1)(ftmp \<mapsto> part), tmp_count := tmp_count s1 + 1,
                   trace := trace s1 @ [Tmp_write_failed ftmp part]\<rparr>)
           | Payload bytes \<Rightarrow>
               let s2 = s1\<lparr>files := (files s1)(ftmp \<mapsto> bytes), tmp_count := tmp_count s1 + 1,
                          trace := trace s1 @ [Tmp_written ftmp bytes]\<rparr>;
                   s3 = (if out_dir \<notin> dirs s2 \<and> files s2 out_dir = None
                         then s2\<lparr>dirs := insert out_dir (dirs s2),
                                 trace := trace s2 @ [Makedirs out_dir]\<rparr>
                         else s2)
               in (None,
                   s3\<lparr>files := (files s3)(out_file := files s3 ftmp),
                      trace := trace s3 @ [Copied ftmp out_file],
                      out_files := out_files s3 @ [out_file]\<rparr>))"

text \<open>Lines 98-130: the loop. An exception ends it.\<close>

fun fetch_files :: "sdc_env \<Rightarrow> string \<Rightarrow> state \<Rightarrow> sdc_file list \<Rightarrow> error option \<times> state" where
  "fetch_files env out_dir s [] = (None, s)"
| "fetch_files env out_dir s (file # rest) =
     (case fetch_file env out_dir s file of
        (Some e, s') \<Rightarrow> (Some e, s')
      | (None, s') \<Rightarrow> fetch_files env out_dir s' rest)"

text \<open>Lines 47-53.\<close>

definition filetypes_of :: "string list \<Rightarrow> string list" where
  "filetypes_of datatypes =
     (if ''pos'' \<in> set datatypes \<or> ''vel'' \<in> set datatypes then [''eph''] else [])
     @ (if ''spinras'' \<in> set datatypes \<or> ''spindec'' \<in> set datatypes then [''att''] else [])"

record state_args =
  sd_probe :: string
  sd_trange :: "timearg \<times> timearg"
  sd_datatypes :: "string list"
  sd_level :: string
  sd_no_download :: bool

definition listing_url_of :: "sdc_env \<Rightarrow> state_args \<Rightarrow> string \<Rightarrow> string" where
  "listing_url_of env a filetype =
     (let product = sd_level a @ filetype;
          dates_for_query =
            (if sd_level a = ''def''
             then ''&start_date='' @ ymd_text (start_time_str (sd_trange a))
                  @ ''&end_date='' @ ymd_text (end_time_str (sd_trange a))
             else [])
      in (if login_user env = None
          then ''https://lasp.colorado.edu/mms/sdc/public/files/api/v1/file_info/ancillary?sc_id=mms''
          else ''https://lasp.colorado.edu/mms/sdc/sitl/files/api/v1/file_info/ancillary?sc_id=mms'')
         @ sd_probe a @ ''&product='' @ product @ dates_for_query)"

text \<open>
  Lines 60-138, the body of the loop over the file types. With \<open>no_download\<close> the name
  \<open>sdc_session\<close> was never bound, and line 76 raises. The loaders \<open>mms_load_eph_tplot\<close> and
  \<open>mms_load_att_tplot\<close> are not in the source tree: the model records their call, with the
  file list in the order \<open>sorted\<close> gives.
\<close>

definition load_filetype :: "sdc_env \<Rightarrow> state_args \<Rightarrow> state \<Rightarrow> string \<Rightarrow> error option \<times> state" where
  "load_filetype env a s filetype =
     (let url = listing_url_of env a filetype in
      if sd_no_download a then (Some (UnboundLocalError ''sdc_session''), s)
      else
        let s1 = s\<lparr>trace := trace s @ [Http_get url]\<rparr> in
        case listing env url of
          None \<Rightarrow> (Some (ConnectionError url), s1)
        | Some http_files \<Rightarrow>
            let out_dir = join (os_sep env)
                  [local_data_dir env, ''ancillary'', ''mms'' @ sd_probe a, sd_level a @ filetype];
                files_in_interval = files_in_interval_of (sd_level a) (sd_trange a) http_files
            in case fetch_files env out_dir (s1\<lparr>out_files := []\<rparr>) files_in_interval of
                 (Some e, s2) \<Rightarrow> (Some e, s2)
               | (None, s2) \<Rightarrow>
                   if download_only env then (None, s2)
                   else (None, s2\<lparr>trace := trace s2 @ [Tplot_load filetype (sort (out_files s2))]\<rparr>))"

fun load_filetypes :: "sdc_env \<Rightarrow> state_args \<Rightarrow> state \<Rightarrow> string list \<Rightarrow> error option \<times> state" where
  "load_filetypes env a s [] = (None, s)"
| "load_filetypes env a s (filetype # rest) =
     (case load_filetype env a s filetype of
        (Some e, s') \<Rightarrow> (Some e, s')
      | (None, s') \<Rightarrow> load_filetypes env a s' rest)"

definition mms_get_state_data :: "sdc_env \<Rightarrow> state_args \<Rightarrow> state \<Rightarrow> error option \<times> state" where
  "mms_get_state_data env a s = load_filetypes env a s (filetypes_of (sd_datatypes a))"

text \<open>A listing of two predicted files, a two-day range and a cache that holds the first file.\<close>

definition ex_file_a :: sdc_file where
  "ex_file_a = \<lparr> file_name = ''A.V00'', file_size = JInt 3,
                 start_date = TimeStr 1444867200, end_date = TimeStr 1446336000 \<rparr>"

definition ex_file_b :: sdc_file where
  "ex_file_b = \<lparr> file_name = ''B.V00'', file_size = JInt 5,
                 start_date = TimeStr 1444953600, end_date = TimeStr 1446422400 \<rparr>"

definition ex_trange :: "timearg \<times> timearg" where
  "ex_trange = (TimeStr 1444953600, TimeStr 1445040000)"

definition ex_sdc_env :: "response \<Rightarrow> sdc_env" where
  "ex_sdc_env r =
     \<lparr> local_data_dir = ''data'', download_only = True, os_name = ''posix'',
       login_user = None, listing = (\<lambda>url. Some [ex_file_a, ex_file_b]),
       download = (\<lambda>url. r), tmp_name = (\<lambda>n. ''tmp'' @ str_nat n) \<rparr>"

definition ex_state :: state where
  "ex_state = \<lparr> files = [''pre/A.V00'' \<mapsto> ''abc''], dirs = {}, trace = [], tmp_count = 0,
                out_files = [] \<rparr>"

definition ex_state_args :: "string \<Rightarrow> bool \<Rightarrow> state_args" where
  "ex_state_args lvl nd =
     \<lparr> sd_probe = ''1'', sd_trange = ex_trange, sd_datatypes = [''pos'', ''vel''],
       sd_level = lvl, sd_no_download = nd \<rparr>"

section \<open>MMS local files: \<open>mms_get_local_files\<close> (src/pyspedas/mms/mms_get_local_files.py)\<close>

subsection \<open>The regular expression of line 44\<close>

text \<open>
  The pattern of the source uses literal text, one optional group around a literal, single
  characters of a class and greedy repetitions of a class, some of them groups. \<open>.\<close> is any
  character but a newline; \<open>\d\<close> and \<open>[0-9]\<close> are the ten digits (a \<open>char\<close> is a byte).
\<close>

datatype cls = Any_char | Digit

definition in_cls :: "cls \<Rightarrow> char \<Rightarrow> bool" where
  "in_cls c x = (case c of Any_char \<Rightarrow> x \<noteq> CHR 0x0A | Digit \<Rightarrow> x \<in> set ''0123456789'')"

datatype item =
    Lit string
  | Opt_group string
  | One cls
  | Rep cls nat "nat option" bool

text \<open>The first candidate, in order, on which the rest of the pattern matches.\<close>

fun first_match :: "(nat \<Rightarrow> 'a option) \<Rightarrow> nat list \<Rightarrow> 'a option" where
  "first_match f [] = None"
| "first_match f (k # ks) = (case f k of Some r \<Rightarrow> Some r | None \<Rightarrow> first_match f ks)"

text \<open>
  \<open>re.match\<close>: the pattern is matched at the start of the string and need not reach its end.
  The search backtracks as Python's does: an optional group is tried present first, a
  repetition takes as many characters as it can and gives them back one at a time. The
  result is the groups of the first match found, \<open>None\<close> for a group that did not take part.
  \<open>Rep c lo hi g\<close> repeats class \<open>c\<close> from \<open>lo\<close> to \<open>hi\<close> times (no upper bound for \<open>None\<close>) and
  is a group when \<open>g\<close> holds.
\<close>

primrec match_items :: "item list \<Rightarrow> string \<Rightarrow> string option list \<Rightarrow> string option list option" where
  "match_items [] s groups = Some groups"
| "match_items (i # rest) s groups =
     (case i of
        Lit l \<Rightarrow>
          if prefix l s then match_items rest (drop (length l) s) groups else None
      | Opt_group l \<Rightarrow>
          (case (if prefix l s then match_items rest (drop (length l) s) (groups @ [Some l])
                 else None) of
             Some r \<Rightarrow> Some r
           | None \<Rightarrow> match_items rest s (groups @ [None]))
      | One c \<Rightarrow>
          (case s of
             [] \<Rightarrow> None
           | x # xs \<Rightarrow> if in_cls c x then match_items rest xs groups else None)
      | Rep c lo hi g \<Rightarrow>
          (let n = length (takeWhile (in_cls c) s);
               most = (case hi of None \<Rightarrow> n | Some h \<Rightarrow> min n h)
           in first_match
                (\<lambda>k. match_items rest (drop k s) (if g then groups @ [Some (take k s)] else groups))
                (rev [lo..<Suc most])))"

text \<open>\<open>matches.groups()[i]\<close>.\<close>

definition group_at :: "string option list \<Rightarrow> nat \<Rightarrow> string option" where
  "group_at groups i = (if i < length groups then groups ! i else None)"


subsection \<open>Arguments and surroundings\<close>

record local_args =
  lf_probe :: string
  lf_instrument :: string
  lf_data_rate :: string
  lf_level :: string
  lf_datatype :: "string option"
  lf_trange :: "string \<times> string"

text \<open>A Python dict with string keys and values, and a Python value that is one or a string.\<close>

type_synonym pydict = "(string \<times> string) list"

datatype pyval = PStr string | PDict pydict

text \<open>\<open>x in xs\<close> on a list: some element equals \<open>x\<close>. A string never equals a dict.\<close>

definition py_in :: "pyval \<Rightarrow> pyval list \<Rightarrow> bool" where
  "py_in x xs = (x \<in> set xs)"

text \<open>
  What the routine reads from outside. \<open>walk\<close> is what \<open>os.walk(CONFIG['local_data_dir'])\<close>
  yields, as pairs of \<open>root\<close> and \<open>files\<close>; the routine walks the tree once per day of the
  range and the tree does not change meanwhile. \<open>parse\<close> is \<open>dateutil.parser.parse\<close>: the
  date-time a string denotes, in seconds since 1970-01-01 00:00:00 (no time zone), or \<open>None\<close>
  when it raises. \<open>mms_files_in_interval\<close> is the routine of that name, which is not in the
  source tree.
\<close>

record local_env = mms_config +
  walk :: "(string \<times> string list) list"
  parse :: "string \<Rightarrow> int option"
  mms_files_in_interval :: "pydict list \<Rightarrow> string \<times> string \<Rightarrow> error + pydict list"

text \<open>Line 44.\<close>

definition file_name_pattern :: "local_args \<Rightarrow> item list" where
  "file_name_pattern a =
     [Lit (''mms'' @ lf_probe a @ ''_'' @ lf_instrument a @ ''_'' @ lf_data_rate a @ ''_''
           @ lf_level a),
      Opt_group ''_'', Rep Any_char 0 None False, Lit ''_'', Rep Digit 8 (Some 14) True,
      Lit ''_v'', Rep Digit 1 None True, One Any_char, Rep Digit 1 None True, One Any_char,
      Rep Digit 1 None True, One Any_char, Lit ''cdf'']"

text \<open>
  Line 46. \<open>parse(d.strftime('%Y-%m-%d'))\<close> is 00:00:00 of the day of \<open>d\<close>. The days of the
  rule are that instant and every 24 hours after it, up to \<open>until\<close>.
\<close>

definition midnight :: "int \<Rightarrow> int" where
  "midnight t = (t div 86400) * 86400"

definition days_of :: "int \<Rightarrow> int \<Rightarrow> int list" where
  "days_of dtstart until = map (\<lambda>k. dtstart + 86400 * k) [0 .. (until - dtstart) div 86400]"

text \<open>Lines 48-51.\<close>

definition level_and_dtype :: "'a mms_config_scheme \<Rightarrow> local_args \<Rightarrow> string" where
  "level_and_dtype env a =
     (case lf_datatype a of
        None \<Rightarrow> lf_level a
      | Some d \<Rightarrow> if d = [] then lf_level a else join (os_sep env) [lf_level a, d])"

text \<open>Lines 54-57.\<close>

definition local_dir_of :: "'a mms_config_scheme \<Rightarrow> local_args \<Rightarrow> int \<Rightarrow> string" where
  "local_dir_of env a date =
     (if lf_data_rate a = ''brst''
      then join (os_sep env)
             [local_data_dir env, ''mms'' @ lf_probe a, lf_instrument a, lf_data_rate a,
              level_and_dtype env a, strftime_Y (date div 86400), strftime_m (date div 86400),
              strftime_d (date div 86400)]
      else join (os_sep env)
             [local_data_dir env, ''mms'' @ lf_probe a, lf_instrument a, lf_data_rate a,
              level_and_dtype env a, strftime_Y (date div 86400), strftime_m (date div 86400)])"

text \<open>
  Lines 59-64. \<open>re.escape\<close> makes the directory literal text. On Windows the source appends
  one separator to the escaped directory and joins with another: the two backslashes are
  the escape of one in the pattern. Either way the pattern is the directory, one separator
  and the file name pattern.
\<close>

definition full_path :: "'a mms_config_scheme \<Rightarrow> local_args \<Rightarrow> int \<Rightarrow> item list" where
  "full_path env a date = Lit (local_dir_of env a date) # Lit (os_sep env) # file_name_pattern a"

subsection \<open>The search\<close>

text \<open>
  Lines 66-75, the loop over the files of one directory of the walk. The test of line 74
  looks for the string \<open>this_file\<close> in \<open>files_out\<close>, a list of dicts.
\<close>

fun scan_files ::
  "local_env \<Rightarrow> item list \<Rightarrow> int \<Rightarrow> int \<Rightarrow> string \<Rightarrow> string list \<Rightarrow> pydict list
     \<Rightarrow> error + pydict list" where
  "scan_files env regex lo hi root' [] files_out = Inr files_out"
| "scan_files env regex lo hi root' (file # rest) files_out =
     (let this_file = join (os_sep env) [root', file] in
      case match_items regex this_file [] of
        None \<Rightarrow> scan_files env regex lo hi root' rest files_out
      | Some groups \<Rightarrow>
          (case group_at groups 1 of
             None \<Rightarrow> Inl (TypeError ''parse'')
           | Some digits \<Rightarrow>
               (case parse env digits of
                  None \<Rightarrow> Inl (ParserError digits)
                | Some this_time \<Rightarrow>
                    if this_time \<ge> lo \<and> this_time \<le> hi then
                      if \<not> py_in (PStr this_file) (map PDict files_out) then
                        scan_files env regex lo hi root' rest
                          (files_out @ [[(''file_name'', file), (''timetag'', ''''),
                                         (''full_name'', this_file), (''file_size'', '''')]])
                      else scan_files env regex lo hi root' rest files_out
                    else scan_files env regex lo hi root' rest files_out)))"

text \<open>Line 65, the loop over the walk.\<close>

fun scan_walk ::
  "local_env \<Rightarrow> item list \<Rightarrow> int \<Rightarrow> int \<Rightarrow> (string \<times> string list) list \<Rightarrow> pydict list
     \<Rightarrow> error + pydict list" where
  "scan_walk env regex lo hi [] files_out = Inr files_out"
| "scan_walk env regex lo hi ((root', fs) # rest) files_out =
     (case scan_files env regex lo hi root' fs files_out of
        Inl e \<Rightarrow> Inl e
      | Inr out \<Rightarrow> scan_walk env regex lo hi rest out)"

text \<open>Line 53, the loop over the days.\<close>

fun scan_days ::
  "local_env \<Rightarrow> local_args \<Rightarrow> int \<Rightarrow> int \<Rightarrow> int list \<Rightarrow> pydict list \<Rightarrow> error + pydict list" where
  "scan_days env a lo hi [] files_out = Inr files_out"
| "scan_days env a lo hi (date # rest) files_out =
     (case scan_walk env (full_path env a date) lo hi (walk env) files_out of
        Inl e \<Rightarrow> Inl e
      | Inr out \<Rightarrow> scan_days env a lo hi rest out)"

text \<open>Line 81: \<open>[f['file_name'] for f in files_in_interval]\<close>.\<close>

fun file_names_of :: "pydict list \<Rightarrow> error + string list" where
  "file_names_of [] = Inr []"
| "file_names_of (f # rest) =
     (case map_of f ''file_name'' of
        None \<Rightarrow> Inl (KeyError ''file_name'')
      | Some n \<Rightarrow> (case file_names_of rest of Inl e \<Rightarrow> Inl e | Inr ns \<Rightarrow> Inr (n # ns)))"

text \<open>Lines 83-85.\<close>

fun collect_local_files :: "pydict list \<Rightarrow> string list \<Rightarrow> string list \<Rightarrow> error + string list" where
  "collect_local_files [] file_names local_files = Inr local_files"
| "collect_local_files (file # rest) file_names local_files =
     (case map_of file ''file_name'' of
        None \<Rightarrow> Inl (KeyError ''file_name'')
      | Some n \<Rightarrow>
          if n \<in> set file_names then
            (case map_of file ''full_name'' of
               None \<Rightarrow> Inl (KeyError ''full_name'')
             | Some p \<Rightarrow> collect_local_files rest file_names (local_files @ [p]))
          else collect_local_files rest file_names local_files)"

definition mms_get_local_files :: "local_env \<Rightarrow> local_args \<Rightarrow> error + string list" where
  "mms_get_local_files env a =
     (case parse env (fst (lf_trange a)) of
        None \<Rightarrow> Inl (ParserError (fst (lf_trange a)))
      | Some t0 \<Rightarrow>
          (case parse env (snd (lf_trange a)) of
             None \<Rightarrow> Inl (ParserError (snd (lf_trange a)))
           | Some t1 \<Rightarrow>
               (case scan_days env a (midnight t0) (t1 - 1) (days_of (midnight t0) (t1 - 1)) [] of
                  Inl e \<Rightarrow> Inl e
                | Inr files_out \<Rightarrow>
                    (case mms_files_in_interval env files_out (lf_trange a) of
                       Inl e \<Rightarrow> Inl e
                     | Inr files_in_interval \<Rightarrow>
                         (case file_names_of files_in_interval of
                            Inl e \<Rightarrow> Inl e
                          | Inr file_names \<Rightarrow> collect_local_files files_out file_names [])))))"


subsection \<open>What the pattern says\<close>



subsection \<open>A small tree to run the search on\<close>

text \<open>
  One file of probe 1 in the directory of October 2015, and one file of probe 2 in a
  directory below it whose name starts like a file of probe 1. The interval filter of the
  example keeps every entry.
\<close>

definition ex_parse :: "string \<Rightarrow> int option" where
  "ex_parse = map_of [(''2015-10-16'', 1444953600), (''2015-10-17'', 1445040000),
                      (''2015-10-18'', 1445126400), (''20151016'', 1444953600)]"

definition ex_local_env :: "(string \<times> string list) list \<Rightarrow> local_env" where
  "ex_local_env w =
     \<lparr> local_data_dir = ''data'', download_only = False, os_name = ''posix'',
       walk = w, parse = ex_parse, mms_files_in_interval = (\<lambda>fs tr. Inr fs) \<rparr>"

definition ex_local_args :: "string \<times> string \<Rightarrow> local_args" where
  "ex_local_args tr =
     \<lparr> lf_probe = ''1'', lf_instrument = ''fgm'', lf_data_rate = ''srvy'', lf_level = ''l2'',
       lf_datatype = None, lf_trange = tr \<rparr>"

definition ex_month_dir :: "(string \<times> string list) list" where
  "ex_month_dir = [(''data/mms1/fgm/srvy/l2/2015/10'', [''mms1_fgm_srvy_l2_20151016_v4.18.0.cdf''])]"


lemma str_contains_iff: "str_contains sub s \<longleftrightarrow> (\<exists>p q. s = p @ sub @ q)"
proof (induction s)
  case Nil
  then show ?case by auto
next
  case (Cons c cs)
  show ?case
  proof
    assume "str_contains sub (c # cs)"
    then consider "prefix sub (c # cs)" | "str_contains sub cs" by auto
    then show "\<exists>p q. c # cs = p @ sub @ q"
    proof cases
      case 1
      then obtain q where "c # cs = sub @ q" by (auto simp: prefix_def)
      then have "c # cs = [] @ sub @ q" by simp
      then show ?thesis by blast
    next
      case 2
      with Cons.IH obtain p q where "cs = p @ sub @ q" by blast
      then have "c # cs = (c # p) @ sub @ q" by simp
      then show ?thesis by blast
    qed
  next
    assume "\<exists>p q. c # cs = p @ sub @ q"
    then obtain p q where pq: "c # cs = p @ sub @ q" by blast
    show "str_contains sub (c # cs)"
    proof (cases p)
      case Nil
      with pq have "prefix sub (c # cs)" by (simp add: prefix_def)
      then show ?thesis by simp
    next
      case (Cons d p')
      with pq have "cs = p' @ sub @ q" by simp
      with Cons.IH have "str_contains sub cs" by blast
      then show ?thesis by simp
    qed
  qed
qed

lemma normalize_type_cases:
  "normalize_type ty = (if ty \<in> {''raw'', ''cps'', ''nflux'', ''eflux''} then ty else ''nflux'')"
  by (auto simp: normalize_type_def CALIBRATED_TYPE_UNITS_def)

lemma units_lookup:
  "map_of CALIBRATED_TYPE_UNITS (normalize_type ty) =
     Some (if normalize_type ty = ''raw'' then ''counts/sector''
           else if normalize_type ty = ''cps'' then ''counts/s''
           else if normalize_type ty = ''nflux'' then ''#/(s-cm$^2$-str-MeV)''
           else ''keV/(s-cm$^2$-str-MeV)'')"
  by (auto simp: normalize_type_def CALIBRATED_TYPE_UNITS_def)

lemma set_list_of_set_diff:
  "set (list_of_set_diff h xs ys zs) = set xs - set ys - set zs"
  by (auto simp: list_of_set_diff_def)

lemma distinct_list_of_set_diff: "distinct (list_of_set_diff h xs ys zs)"
  by (simp add: list_of_set_diff_def)


lemma any_not_nan_iff: "any_not_nan y \<longleftrightarrow> (\<exists>v\<in>set y. v \<noteq> NaN)"
  by (auto simp: any_not_nan_def list_ex_iff isnan_def split: npval.splits)

text \<open>
  C4. A calibrated type that is \<open>cal\<close>, \<open>calibrated\<close> or none of \<open>raw\<close>, \<open>cps\<close>,
  \<open>nflux\<close>, \<open>eflux\<close> becomes \<open>nflux\<close>. Once the load step has produced variables and
  neither \<open>notplot\<close> nor \<open>downloadonly\<close> is set: for level \<open>l1\<close> the routine calls L1
  postprocessing with the normalised type and with the unit the table gives for it; for level
  \<open>l2\<close> the flux type handed to L2 postprocessing is the normalised type when that is
  \<open>nflux\<close> or \<open>eflux\<close>, and \<open>nflux\<close> otherwise. (On the L2 path the only exception is the
  AttributeError of a missing 32-sector variable.)
\<close>

theorem elfin_type_normalization_and_units:
  "normalize_type ty = (if ty \<in> {''raw'', ''cps'', ''nflux'', ''eflux''} then ty else ''nflux'')
   \<and> normalize_type ''cal'' = ''nflux'' \<and> normalize_type ''calibrated'' = ''nflux''
   \<and> (\<not> notplot a \<and> \<not> downloadonly a \<and> \<not> py_not (load env (load_request_of a)) \<and> level a = ''l1''
        \<longrightarrow> (\<exists>c. elfin_load_epd env a = Inr (L1_postprocessing c)
               \<and> l1_type c = normalize_type (type' a)
               \<and> map_of CALIBRATED_TYPE_UNITS (l1_type c) = Some (l1_unit c)
               \<and> l1_unit c =
                   (if l1_type c = ''raw'' then ''counts/sector''
                    else if l1_type c = ''cps'' then ''counts/s''
                    else if l1_type c = ''nflux'' then ''#/(s-cm$^2$-str-MeV)''
                    else ''keV/(s-cm$^2$-str-MeV)'')))
   \<and> (\<not> notplot a \<and> \<not> downloadonly a \<and> \<not> py_not (load env (load_request_of a)) \<and> level a = ''l2''
        \<longrightarrow> (case elfin_load_epd env a of
               Inl e \<Rightarrow> e = AttributeError
             | Inr r \<Rightarrow> (\<exists>c. r = L2_postprocessing c
                          \<and> l2_fluxtype_arg c =
                              (if normalize_type (type' a) \<in> {''nflux'', ''eflux''}
                               then normalize_type (type' a) else ''nflux''))))"
proof (intro conjI impI)
  show "normalize_type ty = (if ty \<in> {''raw'', ''cps'', ''nflux'', ''eflux''} then ty else ''nflux'')"
    by (rule normalize_type_cases)
  show "normalize_type ''cal'' = ''nflux''" by (simp add: normalize_type_def)
  show "normalize_type ''calibrated'' = ''nflux''" by (simp add: normalize_type_def)
next
  assume h: "\<not> notplot a \<and> \<not> downloadonly a \<and> \<not> py_not (load env (load_request_of a)) \<and> level a = ''l1''"
  then show "\<exists>c. elfin_load_epd env a = Inr (L1_postprocessing c)
               \<and> l1_type c = normalize_type (type' a)
               \<and> map_of CALIBRATED_TYPE_UNITS (l1_type c) = Some (l1_unit c)
               \<and> l1_unit c =
                   (if l1_type c = ''raw'' then ''counts/sector''
                    else if l1_type c = ''cps'' then ''counts/s''
                    else if l1_type c = ''nflux'' then ''#/(s-cm$^2$-str-MeV)''
                    else ''keV/(s-cm$^2$-str-MeV)'')"
    by (simp add: elfin_load_epd_def Let_def units_lookup)
next
  assume h: "\<not> notplot a \<and> \<not> downloadonly a \<and> \<not> py_not (load env (load_request_of a)) \<and> level a = ''l2''"
  then show "case elfin_load_epd env a of
               Inl e \<Rightarrow> e = AttributeError
             | Inr r \<Rightarrow> (\<exists>c. r = L2_postprocessing c
                          \<and> l2_fluxtype_arg c =
                              (if normalize_type (type' a) \<in> {''nflux'', ''eflux''}
                               then normalize_type (type' a) else ''nflux''))"
    by (auto simp: elfin_load_epd_def Let_def l2_fluxtype_def l2_tvars_input_def
             split: sum.splits option.splits if_splits)
qed

text \<open>
  C8. The routine raises ValueError exactly when the level is neither \<open>l1\<close> nor \<open>l2\<close>, the
  load step returned a non-empty list and neither \<open>notplot\<close> nor \<open>downloadonly\<close> is set. When
  \<open>notplot\<close> or \<open>downloadonly\<close> is set, or the load result is empty or \<open>None\<close>, it returns
  the load result as it is.
\<close>

theorem elfin_value_error_iff:
  "((\<exists>m. elfin_load_epd env a = Inl (ValueError m)) \<longleftrightarrow>
      (level a \<noteq> ''l1'' \<and> level a \<noteq> ''l2'' \<and> \<not> py_not (load env (load_request_of a))
       \<and> \<not> notplot a \<and> \<not> downloadonly a))
   \<and> (notplot a \<or> downloadonly a \<or> py_not (load env (load_request_of a))
        \<longrightarrow> elfin_load_epd env a = Inr (Tvars (load env (load_request_of a))))"
  by (auto simp: elfin_load_epd_def Let_def units_lookup l2_tvars_input_def
           split: sum.splits option.splits if_splits)

text \<open>
  C6. Level \<open>l2\<close>, past the early returns. The variables handed to L2 postprocessing are the
  non-sector variables (those of the load result that are neither a \<open>_32\<close> name nor a
  \<open>_32\<close> name with \<open>_32\<close> removed, each once) followed by the \<open>_32\<close> names when there is
  one and the data of the first holds a value that is not NaN, and followed by the names with
  \<open>_32\<close> removed otherwise.
\<close>

theorem elfin_l2_sector_selection:
  assumes "\<not> notplot a" and "\<not> downloadonly a"
    and "load env (load_request_of a) = Some tvars" and "tvars \<noteq> []"
    and "level a = ''l2''"
    and "tvars_32_of tvars \<noteq> [] \<longrightarrow> get_data env (hd (tvars_32_of tvars)) = Some y"
  shows "\<exists>c other. elfin_load_epd env a = Inr (L2_postprocessing c)
           \<and> l2_tvars c = other @
               (if tvars_32_of tvars \<noteq> [] \<and> (\<exists>v\<in>set y. v \<noteq> NaN)
                then tvars_32_of tvars else tvars_16_of tvars)
           \<and> set other = set tvars - set (tvars_32_of tvars) - set (tvars_16_of tvars)
           \<and> distinct other
           \<and> tvars_32_of tvars = filter (\<lambda>v. \<exists>p q. v = p @ ''_32'' @ q) tvars
           \<and> tvars_16_of tvars = map (str_replace ''_32'' []) (tvars_32_of tvars)"
proof -
  let ?other = "list_of_set_diff (str_hash env) tvars (tvars_32_of tvars) (tvars_16_of tvars)"
  let ?sel = "if tvars_32_of tvars \<noteq> [] \<and> (\<exists>v\<in>set y. v \<noteq> NaN)
              then tvars_32_of tvars else tvars_16_of tvars"
  have inp: "l2_tvars_input env tvars = Inr (?other @ ?sel)"
    using assms(6) by (auto simp: l2_tvars_input_def Let_def any_not_nan_iff)
  have "\<exists>c. elfin_load_epd env a = Inr (L2_postprocessing c) \<and> l2_tvars c = ?other @ ?sel"
    using assms(1-5) by (simp add: elfin_load_epd_def Let_def py_not_def inp)
  moreover have "tvars_32_of tvars = filter (\<lambda>v. \<exists>p q. v = p @ ''_32'' @ q) tvars"
    unfolding tvars_32_of_def by (rule filter_cong) (simp_all add: str_contains_iff)
  ultimately show ?thesis
    using set_list_of_set_diff distinct_list_of_set_diff tvars_16_of_def by blast
qed

lemma ex32: "tvars_32_of example_tvars = [''ela_pef_hs_Epat_nflux_32'']"
  by (simp add: tvars_32_of_def example_tvars_def)

lemma ex16: "tvars_16_of example_tvars = [''ela_pef_hs_Epat_nflux'']"
  by (simp add: tvars_16_of_def ex32)

text \<open>
  The hypotheses of C6 hold for the example load result, whose 32-sector variable has data.
\<close>

theorem elfin_l2_sector_selection_witness:
  "\<exists>c other. elfin_load_epd (example_env length) (epd_defaults\<lparr>level := ''l2''\<rparr>)
       = Inr (L2_postprocessing c)
     \<and> l2_tvars c = other @ [''ela_pef_hs_Epat_nflux_32'']
     \<and> set other = {''ela_pef_energies_mean'', ''ela_pef_Et_nflux''}"
proof -
  have 1: "\<not> notplot (epd_defaults\<lparr>level := ''l2''\<rparr>)" by (simp add: epd_defaults_def)
  have 2: "\<not> downloadonly (epd_defaults\<lparr>level := ''l2''\<rparr>)" by (simp add: epd_defaults_def)
  have 3: "load (example_env length) (load_request_of (epd_defaults\<lparr>level := ''l2''\<rparr>))
             = Some example_tvars" by (simp add: example_env_def)
  have 4: "example_tvars \<noteq> []" by (simp add: example_tvars_def)
  have 5: "level (epd_defaults\<lparr>level := ''l2''\<rparr>) = ''l2''" by simp
  have 6: "tvars_32_of example_tvars \<noteq> [] \<longrightarrow>
             get_data (example_env length) (hd (tvars_32_of example_tvars)) = Some [NaN, Val 3]"
    by (simp add: ex32 example_env_def)
  have s: "set example_tvars - set [''ela_pef_hs_Epat_nflux_32'']
              - set [''ela_pef_hs_Epat_nflux'']
            = {''ela_pef_energies_mean'', ''ela_pef_Et_nflux''}"
    by (auto simp: example_tvars_def)
  from elfin_l2_sector_selection [OF 1 2 3 4 5 6] obtain c other where
    run: "elfin_load_epd (example_env length) (epd_defaults\<lparr>level := ''l2''\<rparr>)
       = Inr (L2_postprocessing c)"
    and vars: "l2_tvars c = other @
       (if tvars_32_of example_tvars \<noteq> [] \<and> (\<exists>v\<in>set [NaN, Val 3]. v \<noteq> NaN)
        then tvars_32_of example_tvars else tvars_16_of example_tvars)"
    and oth: "set other = set example_tvars - set (tvars_32_of example_tvars)
        - set (tvars_16_of example_tvars)"
    by (elim exE conjE)
  from vars have vars': "l2_tvars c = other @ [''ela_pef_hs_Epat_nflux_32'']"
    by (simp add: ex32)
  from oth have oth': "set other = {''ela_pef_energies_mean'', ''ela_pef_Et_nflux''}"
    by (simp only: ex32 ex16 s)
  from run vars' oth' show ?thesis by blast
qed



lemma ex_ne: "example_tvars \<noteq> []"
  by (simp add: example_tvars_def)







lemma ex_load: "load (example_env h) r = Some example_tvars"
  by (simp add: example_env_def)

lemma ex_py_not: "\<not> py_not (Some example_tvars)"
  by (simp add: py_not_def example_tvars_def)

text \<open>
  C4 at two inputs: type \<open>cal\<close> at level \<open>l1\<close>, and type \<open>raw\<close> at level \<open>l2\<close>.
\<close>

theorem elfin_type_normalization_and_units_witness:
  "(\<exists>c. elfin_load_epd (example_env length) (epd_defaults\<lparr>type' := ''cal''\<rparr>)
          = Inr (L1_postprocessing c)
        \<and> l1_type c = ''nflux'' \<and> l1_unit c = ''#/(s-cm$^2$-str-MeV)'')
   \<and> (\<exists>c. elfin_load_epd (example_env length) (epd_defaults\<lparr>level := ''l2'', type' := ''raw''\<rparr>)
          = Inr (L2_postprocessing c)
        \<and> l2_fluxtype_arg c = ''nflux'')"
proof
  let ?a = "epd_defaults\<lparr>type' := ''cal''\<rparr>"
  have h: "\<not> notplot ?a \<and> \<not> downloadonly ?a
            \<and> \<not> py_not (load (example_env length) (load_request_of ?a)) \<and> level ?a = ''l1''"
    by (simp add: epd_defaults_def ex_load ex_py_not)
  have n: "normalize_type ''cal'' = ''nflux''"
    by (simp add: normalize_type_def)
  note l1 = elfin_type_normalization_and_units [where a = ?a and env = "example_env length", THEN conjunct2, THEN conjunct2,
      THEN conjunct2, THEN conjunct1, THEN mp, OF h]
  then obtain c where
    "elfin_load_epd (example_env length) ?a = Inr (L1_postprocessing c)"
    "l1_type c = normalize_type (type' ?a)"
    "l1_unit c =
       (if l1_type c = ''raw'' then ''counts/sector''
        else if l1_type c = ''cps'' then ''counts/s''
        else if l1_type c = ''nflux'' then ''#/(s-cm$^2$-str-MeV)''
        else ''keV/(s-cm$^2$-str-MeV)'')"
    by (elim conjE exE)
  then show "\<exists>c. elfin_load_epd (example_env length) ?a = Inr (L1_postprocessing c)
        \<and> l1_type c = ''nflux'' \<and> l1_unit c = ''#/(s-cm$^2$-str-MeV)''"
    by (intro exI [of _ c]) (simp add: n)
next
  let ?a = "epd_defaults\<lparr>level := ''l2'', type' := ''raw''\<rparr>"
  have h: "\<not> notplot ?a \<and> \<not> downloadonly ?a
            \<and> \<not> py_not (load (example_env length) (load_request_of ?a)) \<and> level ?a = ''l2''"
    by (simp add: epd_defaults_def ex_load ex_py_not)
  have n: "normalize_type (type' ?a) = ''raw''"
    by (simp add: normalize_type_def CALIBRATED_TYPE_UNITS_def)
  have inp: "l2_tvars_input (example_env length) example_tvars =
      Inr (list_of_set_diff length example_tvars [''ela_pef_hs_Epat_nflux_32'']
                     [''ela_pef_hs_Epat_nflux''] @ [''ela_pef_hs_Epat_nflux_32''])"
    by (simp add: l2_tvars_input_def Let_def ex32 ex16 example_env_def any_not_nan_def isnan_def)
  have r: "\<exists>c. elfin_load_epd (example_env length) ?a = Inr (L2_postprocessing c)"
    by (simp add: elfin_load_epd_def ex_load py_not_def ex_ne inp epd_defaults_def)
  note l2 = elfin_type_normalization_and_units [where a = ?a and env = "example_env length", THEN conjunct2, THEN conjunct2,
      THEN conjunct2, THEN conjunct2, THEN mp, OF h]
  from r obtain c where c: "elfin_load_epd (example_env length) ?a = Inr (L2_postprocessing c)"
    by (elim exE)
  from l2 have "l2_fluxtype_arg c = ''nflux''"
    unfolding c n by simp
  with c show "\<exists>c. elfin_load_epd (example_env length) ?a = Inr (L2_postprocessing c)
        \<and> l2_fluxtype_arg c = ''nflux''"
    by (intro exI [of _ c]) simp
qed

text \<open>
  C8 at two inputs: an unknown level, and \<open>notplot\<close> set.
\<close>

theorem elfin_value_error_iff_witness:
  "(\<exists>m. elfin_load_epd (example_env length) (epd_defaults\<lparr>level := ''l3''\<rparr>)
          = Inl (ValueError m))
   \<and> elfin_load_epd (example_env length) (epd_defaults\<lparr>notplot := True\<rparr>)
       = Inr (Tvars (Some example_tvars))"
proof
  let ?a = "epd_defaults\<lparr>level := ''l3''\<rparr>"
  have "level ?a \<noteq> ''l1'' \<and> level ?a \<noteq> ''l2''
        \<and> \<not> py_not (load (example_env length) (load_request_of ?a))
        \<and> \<not> notplot ?a \<and> \<not> downloadonly ?a"
    by (simp add: epd_defaults_def ex_load ex_py_not)
  with elfin_value_error_iff [of "example_env length" ?a, THEN conjunct1]
  show "\<exists>m. elfin_load_epd (example_env length) ?a = Inl (ValueError m)"
    by (rule iffD2)
next
  let ?a = "epd_defaults\<lparr>notplot := True\<rparr>"
  have "notplot ?a \<or> downloadonly ?a \<or> py_not (load (example_env length) (load_request_of ?a))"
    by simp
  with elfin_value_error_iff [of "example_env length" ?a, THEN conjunct2]
  have "elfin_load_epd (example_env length) ?a
          = Inr (Tvars (load (example_env length) (load_request_of ?a)))"
    by (rule mp)
  then show "elfin_load_epd (example_env length) ?a = Inr (Tvars (Some example_tvars))"
    by (simp only: ex_load)
qed




lemma endtime_day_eq:
  "endtime_day tr = time_double_ymd (time_string_ymd (time_double (snd tr)))"
  by (simp add: endtime_day_def time_double_def split: timearg.splits)

lemma day_start_le: "time_double_ymd (time_string_ymd t) \<le> t"
proof -
  have "of_int \<lfloor>t / 86400\<rfloor> \<le> t / 86400" by (rule of_int_floor_le)
  then show ?thesis by (simp add: time_double_ymd_def time_string_ymd_def pos_le_divide_eq)
qed



lemma select_predicted_eq:
  "select_predicted st ed listed acc =
     acc @ take 1 (filter (\<lambda>f. time_double (start_date f) \<le> ed \<and> st \<le> time_double (end_date f)) listed)"
  by (induction listed) (auto simp: not_less)

text \<open>
  C3, amended. When the level is not \<open>def\<close>, the files selected from the listing are: the
  first file, in the order of the listing, whose \<open>start_date\<close> is not after the end-of-range
  day and whose \<open>end_date\<close> is not before the start time (\<open>trange[0]\<close> minus one day), and no
  other file; none when the listing has no such file. With level \<open>def\<close> the whole listing is
  selected.
\<close>

theorem predicted_files_first_overlap:
  "files_in_interval_of lvl tr listed =
     (if lvl \<noteq> ''def''
      then take 1 (filter (\<lambda>f. time_double (start_date f) \<le> endtime_day tr
                              \<and> start_time tr \<le> time_double (end_date f)) listed)
      else listed)"
  by (simp add: files_in_interval_of_def select_predicted_eq)














text \<open>
  C10. A download writes the whole payload to the temporary file first and copies that file
  to the cache path afterwards. When the stream fails while the temporary file is written,
  the routine raises, the bytes received are in the temporary file only, and the cache path
  holds what it held before. The temporary file is a fresh file, so its path is not the cache
  path.
\<close>

theorem download_via_temporary_file:
  assumes nc: "\<not> cached s (join (os_sep env) [out_dir, file_name file]) file"
    and tmp: "tmp_name env (tmp_count s) \<noteq> join (os_sep env) [out_dir, file_name file]"
  shows "(download env (download_url_of env file) = Payload bytes \<longrightarrow>
           (\<exists>s' mk. fetch_file env out_dir s file = (None, s')
              \<and> trace s' = trace s @ [Http_get (download_url_of env file),
                                        Tmp_written (tmp_name env (tmp_count s)) bytes]
                              @ mk @ [Copied (tmp_name env (tmp_count s))
                                        (join (os_sep env) [out_dir, file_name file])]
              \<and> (mk = [] \<or> mk = [Makedirs out_dir])
              \<and> files s' (tmp_name env (tmp_count s)) = Some bytes
              \<and> files s' (join (os_sep env) [out_dir, file_name file]) = Some bytes))
       \<and> (download env (download_url_of env file) = Broken part \<longrightarrow>
           (\<exists>s'. fetch_file env out_dir s file = (Some (StreamError (download_url_of env file)), s')
              \<and> trace s' = trace s @ [Http_get (download_url_of env file),
                                        Tmp_write_failed (tmp_name env (tmp_count s)) part]
              \<and> files s' (join (os_sep env) [out_dir, file_name file])
                   = files s (join (os_sep env) [out_dir, file_name file])
              \<and> files s' (tmp_name env (tmp_count s)) = Some part
              \<and> out_files s' = out_files s))
       \<and> (download env (download_url_of env file) = Refused \<longrightarrow>
           fetch_file env out_dir s file
             = (Some (ConnectionError (download_url_of env file)),
                s\<lparr>trace := trace s @ [Http_get (download_url_of env file)]\<rparr>))"
proof (intro conjI impI)
  assume "download env (download_url_of env file) = Payload bytes"
  with nc show "\<exists>s' mk. fetch_file env out_dir s file = (None, s')
              \<and> trace s' = trace s @ [Http_get (download_url_of env file),
                                        Tmp_written (tmp_name env (tmp_count s)) bytes]
                              @ mk @ [Copied (tmp_name env (tmp_count s))
                                        (join (os_sep env) [out_dir, file_name file])]
              \<and> (mk = [] \<or> mk = [Makedirs out_dir])
              \<and> files s' (tmp_name env (tmp_count s)) = Some bytes
              \<and> files s' (join (os_sep env) [out_dir, file_name file]) = Some bytes"
    by (simp add: fetch_file_def Let_def)
next
  assume "download env (download_url_of env file) = Broken part"
  with nc tmp show "\<exists>s'. fetch_file env out_dir s file
                = (Some (StreamError (download_url_of env file)), s')
              \<and> trace s' = trace s @ [Http_get (download_url_of env file),
                                        Tmp_write_failed (tmp_name env (tmp_count s)) part]
              \<and> files s' (join (os_sep env) [out_dir, file_name file])
                   = files s (join (os_sep env) [out_dir, file_name file])
              \<and> files s' (tmp_name env (tmp_count s)) = Some part
              \<and> out_files s' = out_files s"
    by (simp add: fetch_file_def Let_def)
next
  assume "download env (download_url_of env file) = Refused"
  with nc show "fetch_file env out_dir s file
             = (Some (ConnectionError (download_url_of env file)),
                s\<lparr>trace := trace s @ [Http_get (download_url_of env file)]\<rparr>)"
    by (simp add: fetch_file_def Let_def)
qed


lemma ex_joinB: "join (os_sep (ex_sdc_env r)) [''pre'', file_name ex_file_b] = ''pre/B.V00''"
  by (simp add: os_sep_def ex_sdc_env_def ex_file_b_def)


lemma ex_not_cachedB: "\<not> cached ex_state ''pre/B.V00'' ex_file_b"
  by (simp add: cached_def ex_state_def)

lemma ex_urlB: "download_url_of (ex_sdc_env r) ex_file_b
  = ''https://lasp.colorado.edu/mms/sdc/public/files/api/v1/download/ancillary?file=B.V00''"
  by (simp add: download_url_of_def ex_sdc_env_def ex_file_b_def)


lemma ex_tmp: "tmp_name (ex_sdc_env r) (tmp_count ex_state) = ''tmp0''"
  by (simp add: ex_sdc_env_def ex_state_def str_nat.simps digit_char_def)

lemma ex_download: "download (ex_sdc_env r) url = r"
  by (simp add: ex_sdc_env_def)

text \<open>
  C10 on the example cache, for a complete and for a broken download of the second file.
\<close>

theorem download_via_temporary_file_witness:
  "(\<exists>s'. fetch_file (ex_sdc_env (Payload ''hello'')) ''pre'' ex_state ex_file_b = (None, s')
        \<and> files s' ''pre/B.V00'' = Some ''hello'')
   \<and> (\<exists>s'. fetch_file (ex_sdc_env (Broken ''he'')) ''pre'' ex_state ex_file_b
            = (Some (StreamError
                ''https://lasp.colorado.edu/mms/sdc/public/files/api/v1/download/ancillary?file=B.V00''), s')
        \<and> files s' ''pre/B.V00'' = None \<and> files s' ''tmp0'' = Some ''he'')"
proof
  let ?env = "ex_sdc_env (Payload ''hello'')"
  have nc: "\<not> cached ex_state (join (os_sep ?env) [''pre'', file_name ex_file_b]) ex_file_b"
    by (simp only: ex_joinB ex_not_cachedB not_False_eq_True)
  have tmp: "tmp_name ?env (tmp_count ex_state) \<noteq> join (os_sep ?env) [''pre'', file_name ex_file_b]"
    by (simp only: ex_joinB ex_tmp) simp
  have d: "download ?env (download_url_of ?env ex_file_b) = Payload ''hello''"
    by (rule ex_download)
  note t = download_via_temporary_file [OF nc tmp, THEN conjunct1, THEN mp, OF d]
  then obtain s' where "fetch_file ?env ''pre'' ex_state ex_file_b = (None, s')"
    and "files s' (join (os_sep ?env) [''pre'', file_name ex_file_b]) = Some ''hello''"
    by (elim exE conjE)
  then show "\<exists>s'. fetch_file ?env ''pre'' ex_state ex_file_b = (None, s')
        \<and> files s' ''pre/B.V00'' = Some ''hello''"
    unfolding ex_joinB by (intro exI [of _ s']) simp
next
  let ?env = "ex_sdc_env (Broken ''he'')"
  have nc: "\<not> cached ex_state (join (os_sep ?env) [''pre'', file_name ex_file_b]) ex_file_b"
    by (simp only: ex_joinB ex_not_cachedB not_False_eq_True)
  have tmp: "tmp_name ?env (tmp_count ex_state) \<noteq> join (os_sep ?env) [''pre'', file_name ex_file_b]"
    by (simp only: ex_joinB ex_tmp) simp
  have d: "download ?env (download_url_of ?env ex_file_b) = Broken ''he''"
    by (rule ex_download)
  note t = download_via_temporary_file [OF nc tmp, THEN conjunct2, THEN conjunct1, THEN mp, OF d]
  then obtain s' where
    r: "fetch_file ?env ''pre'' ex_state ex_file_b
          = (Some (StreamError (download_url_of ?env ex_file_b)), s')"
    and f: "files s' (join (os_sep ?env) [''pre'', file_name ex_file_b])
          = files ex_state (join (os_sep ?env) [''pre'', file_name ex_file_b])"
    and g: "files s' (tmp_name ?env (tmp_count ex_state)) = Some ''he''"
    by (elim exE conjE)
  from f have f': "files s' ''pre/B.V00'' = None"
    unfolding ex_joinB by (simp add: ex_state_def)
  from g have "files s' ''tmp0'' = Some ''he''"
    by (simp only: ex_tmp)
  with r f' show "\<exists>s'. fetch_file ?env ''pre'' ex_state ex_file_b
            = (Some (StreamError
                ''https://lasp.colorado.edu/mms/sdc/public/files/api/v1/download/ancillary?file=B.V00''), s')
        \<and> files s' ''pre/B.V00'' = None \<and> files s' ''tmp0'' = Some ''he''"
    unfolding ex_urlB by (intro exI [of _ s']) simp
qed

lemma ex_endtime_day: "endtime_day ex_trange = 1445040000"
  by (simp add: endtime_day_eq ex_trange_def time_double_def time_double_ymd_def time_string_ymd_def)

lemma ex_start_time: "start_time ex_trange = 1444867200"
  by (simp add: start_time_def ex_trange_def time_double_def)

text \<open>
  C3 as stated fails: both files of the example listing overlap the range, and only the first
  is selected.
\<close>

theorem predicted_files_not_all_overlapping:
  "files_in_interval_of ''pred'' ex_trange [ex_file_a, ex_file_b]
     \<noteq> filter (\<lambda>f. time_double (start_date f) \<le> endtime_day ex_trange
                     \<and> start_time ex_trange \<le> time_double (end_date f)) [ex_file_a, ex_file_b]"
  by (simp add: files_in_interval_of_def ex_endtime_day ex_start_time ex_file_a_def ex_file_b_def
        time_double_def)

text \<open>
  The amended C3 on the example listing, for a predicted level and for \<open>def\<close>.
\<close>

theorem predicted_files_first_overlap_witness:
  "files_in_interval_of ''pred'' ex_trange [ex_file_a, ex_file_b] = [ex_file_a]
   \<and> files_in_interval_of ''def'' ex_trange [ex_file_a, ex_file_b] = [ex_file_a, ex_file_b]"
  using predicted_files_first_overlap [of "''pred''" ex_trange "[ex_file_a, ex_file_b]"]
        predicted_files_first_overlap [of "''def''" ex_trange "[ex_file_a, ex_file_b]"]
  by (simp add: ex_endtime_day ex_start_time ex_file_a_def ex_file_b_def time_double_def)


subsection \<open>The whole routine on the example\<close>

text \<open>
  With \<open>no_download\<close> the session is never bound and the first listing request raises.
\<close>

lemma mms_get_state_data_without_session:
  "fst (mms_get_state_data (ex_sdc_env (Payload ''hello'')) (ex_state_args ''def'' True) ex_state)
     = Some (UnboundLocalError ''sdc_session'')"
  by code_simp

text \<open>
  Level \<open>def\<close>, range 2015-10-16 to 2015-10-17: the listing is asked for 2015-10-15 to
  2015-10-17, and both files are fetched through a temporary file each.
\<close>

lemma mms_get_state_data_definitive_run:
  "trace (snd (mms_get_state_data (ex_sdc_env (Payload ''hello'')) (ex_state_args ''def'' False)
       ex_state))
   = [Http_get ''https://lasp.colorado.edu/mms/sdc/public/files/api/v1/file_info/ancillary?sc_id=mms1&product=defeph&start_date=2015-10-15&end_date=2015-10-17'',
      Http_get ''https://lasp.colorado.edu/mms/sdc/public/files/api/v1/download/ancillary?file=A.V00'',
      Tmp_written ''tmp0'' ''hello'',
      Makedirs ''data/ancillary/mms1/defeph'',
      Copied ''tmp0'' ''data/ancillary/mms1/defeph/A.V00'',
      Http_get ''https://lasp.colorado.edu/mms/sdc/public/files/api/v1/download/ancillary?file=B.V00'',
      Tmp_written ''tmp1'' ''hello'',
      Copied ''tmp1'' ''data/ancillary/mms1/defeph/B.V00'']"
  by code_simp

text \<open>A predicted level: only the first file of the listing is fetched.\<close>

lemma mms_get_state_data_predicted_run:
  "out_files (snd (mms_get_state_data (ex_sdc_env (Payload ''hello''))
       (ex_state_args ''pred'' False) ex_state))
   = [''data/ancillary/mms1/predeph/A.V00'']"
  by code_simp














text \<open>
  C9 fails on the code: for a two-day range and a survey data rate both days search the same
  month directory, the test of line 74 compares a string with dicts and never finds it, and
  the one file is returned twice.
\<close>

theorem local_files_duplicate_paths:
  "mms_get_local_files (ex_local_env ex_month_dir) (ex_local_args (''2015-10-16'', ''2015-10-18''))
   = Inr [''data/mms1/fgm/srvy/l2/2015/10/mms1_fgm_srvy_l2_20151016_v4.18.0.cdf'',
          ''data/mms1/fgm/srvy/l2/2015/10/mms1_fgm_srvy_l2_20151016_v4.18.0.cdf'']"
  by code_simp




end
